theory Spec2Isabelle
  imports Main
begin

section \<open>Data model (commands/models.py)\<close>

text \<open>
  Python objects that the code compares and stores by reference are addressed by a
  reference; a store maps every reference to the \<open>Command\<close> object it denotes.
  \<open>Command\<close> defines neither \<open>__eq__\<close> nor \<open>__hash__\<close>, so two commands are equal
  exactly when they are the same object, that is, the same reference.
\<close>

type_synonym ref = nat

text \<open>
  A raised exception is an instance of a class derived from \<open>Exception\<close> (an error), or of
  a class derived from \<open>BaseException\<close> only (\<open>KeyboardInterrupt\<close>, \<open>SystemExit\<close>,
  \<open>GeneratorExit\<close>, \<open>asyncio.CancelledError\<close>). The clause \<open>except Exception\<close> matches
  the former and lets the latter pass. Both carry the class name and the message.
\<close>

datatype exc = Exception string string | BaseOnly string string

fun isinstance_Exception :: "exc \<Rightarrow> bool" where
  "isinstance_Exception (Exception cls msg) = True"
| "isinstance_Exception (BaseOnly cls msg) = False"

text \<open>
  \<open>Context\<close>: the three attributes of \<open>Context.__init__\<close>, each \<open>None\<close> at first.
  Positional arguments are a tuple of opaque values, keyword arguments a dict from
  names to opaque values, in insertion order.
\<close>

record 'a Context =
  command :: "ref option"
  args :: "'a list option"
  kwargs :: "(string \<times> 'a) list option"

definition Context_init :: "'a Context" where
  "Context_init = \<lparr>command = None, args = None, kwargs = None\<rparr>"

text \<open>
  Awaiting a callback either returns (the value is discarded by \<open>invoke\<close>) or raises.
  A callback is modelled by the outcome it has on its arguments.
\<close>

datatype outcome = Returned | Raised exc

text \<open>
  \<open>Command\<close>: \<open>callback\<close>, \<open>error_callback\<close> (\<open>None\<close> after construction), \<open>name\<close> and
  \<open>aliases\<close>. The brief, description and metadata attributes are held and never read by
  the code modelled here.
\<close>

record 'a Command =
  callback :: "'a Context \<Rightarrow> 'a list \<Rightarrow> (string \<times> 'a) list \<Rightarrow> outcome"
  error_callback :: "('a Context \<Rightarrow> exc \<Rightarrow> outcome) option"
  name :: string
  aliases :: "string list"

definition Command_init ::
  "('a Context \<Rightarrow> 'a list \<Rightarrow> (string \<times> 'a) list \<Rightarrow> outcome) \<Rightarrow> string \<Rightarrow> string list
    \<Rightarrow> 'a Command" where
  "Command_init cb n als = \<lparr>callback = cb, error_callback = None, name = n, aliases = als\<rparr>"

definition Command_error :: "'a Command \<Rightarrow> ('a Context \<Rightarrow> exc \<Rightarrow> outcome) \<Rightarrow> 'a Command" where
  "Command_error self func = self\<lparr>error_callback := Some func\<rparr>"

type_synonym 'a store = "ref \<Rightarrow> 'a Command"

section \<open>Event dispatch\<close>

text \<open>
  \<open>_temporary_dispatch(event, *args)\<close> prints one line per call. The model keeps the
  lines as a log: each entry is the event name with the positional payload.
\<close>

datatype 'a payload = PContext "'a Context" | PExc exc

type_synonym 'a dispatched = "string \<times> 'a payload list"

definition temporary_dispatch ::
  "string \<Rightarrow> 'a payload list \<Rightarrow> 'a dispatched list \<Rightarrow> 'a dispatched list" where
  "temporary_dispatch event ps log = log @ [(event, ps)]"

section \<open>Command.invoke\<close>

text \<open>
  The body of the \<open>try\<close> statement without its \<open>finally\<close> clause: the result is what
  leaves the statement (\<open>Inr ()\<close> for falling through or \<open>return\<close>, \<open>Inl e\<close> for an
  exception in flight) and the log so far.
  \<^item> the callback returns: the \<open>else\<close> clause dispatches \<open>command_success\<close>;
  \<^item> the callback raises an \<open>Exception\<close>: with an error callback that returns, the
    function returns; with one that raises an \<open>Exception\<close>, that one replaces \<open>exc\<close>;
    then (and when no error callback is set) \<open>command_error\<close> is dispatched;
  \<^item> an exception that \<open>except Exception\<close> does not match stays in flight.
\<close>

definition invoke_try ::
  "'a Command \<Rightarrow> 'a Context \<Rightarrow> 'a list \<Rightarrow> (string \<times> 'a) list \<Rightarrow> 'a dispatched list
    \<Rightarrow> (exc + unit) \<times> 'a dispatched list" where
  "invoke_try self ctx as kws log0 =
    (let log1 = temporary_dispatch ''command'' [PContext ctx] log0 in
     case callback self ctx as kws of
       Returned \<Rightarrow> (Inr (), temporary_dispatch ''command_success'' [PContext ctx] log1)
     | Raised exc \<Rightarrow>
         if isinstance_Exception exc then
           (case error_callback self of
              None \<Rightarrow> (Inr (), temporary_dispatch ''command_error'' [PContext ctx, PExc exc] log1)
            | Some handler \<Rightarrow>
                (case handler ctx exc of
                   Returned \<Rightarrow> (Inr (), log1)
                 | Raised new_exc \<Rightarrow>
                     if isinstance_Exception new_exc
                     then (Inr (),
                           temporary_dispatch ''command_error'' [PContext ctx, PExc new_exc] log1)
                     else (Inl new_exc, log1)))
         else (Inl exc, log1))"

text \<open>The \<open>finally\<close> clause runs on every way out of the statement.\<close>

definition Command_invoke ::
  "'a Command \<Rightarrow> 'a Context \<Rightarrow> 'a list \<Rightarrow> (string \<times> 'a) list \<Rightarrow> 'a dispatched list
    \<Rightarrow> (exc + unit) \<times> 'a dispatched list" where
  "Command_invoke self ctx as kws log0 =
    (case invoke_try self ctx as kws log0 of
       (res, log2) \<Rightarrow> (res, temporary_dispatch ''command_complete'' [PContext ctx] log2))"

section \<open>Context.invoke and Context.reinvoke\<close>

text \<open>
  \<open>Context.invoke\<close> stores its three arguments on the context and then calls
  \<open>command.invoke(self, *args, **kwargs)\<close>. \<open>reinvoke\<close> passes \<open>self.command\<close>, which
  may be \<open>None\<close>: the attribute lookup \<open>None.invoke\<close> then raises after the stores.
\<close>

definition Context_invoke ::
  "'a store \<Rightarrow> 'a Context \<Rightarrow> ref option \<Rightarrow> 'a list \<Rightarrow> (string \<times> 'a) list
    \<Rightarrow> 'a dispatched list \<Rightarrow> (exc + unit) \<times> 'a Context \<times> 'a dispatched list" where
  "Context_invoke st self cmd as kws log0 =
    (let self' = self\<lparr>command := cmd, args := Some as, kwargs := Some kws\<rparr> in
     case cmd of
       None \<Rightarrow>
         (Inl (Exception ''AttributeError'' ''NoneType object has no attribute invoke''),
          self', log0)
     | Some c \<Rightarrow>
         (case Command_invoke (st c) self' as kws log0 of (res, log1) \<Rightarrow> (res, self', log1)))"

text \<open>
  \<open>self.invoke(self.command, *self.args, **self.kwargs)\<close>: the argument list is built
  before the call. Unpacking \<open>None\<close> with \<open>*\<close> or with \<open>**\<close> raises \<open>TypeError\<close>, and
  then \<open>invoke\<close> is not called.
\<close>

definition Context_reinvoke ::
  "'a store \<Rightarrow> 'a Context \<Rightarrow> 'a dispatched list
    \<Rightarrow> (exc + unit) \<times> 'a Context \<times> 'a dispatched list" where
  "Context_reinvoke st self log0 =
    (case args self of
       None \<Rightarrow>
         (Inl (Exception ''TypeError'' ''argument after * must be an iterable, not NoneType''),
          self, log0)
     | Some as \<Rightarrow>
         (case kwargs self of
            None \<Rightarrow>
              (Inl (Exception ''TypeError'' ''argument after ** must be a mapping, not NoneType''),
               self, log0)
          | Some kws \<Rightarrow> Context_invoke st self (command self) as kws log0))"

section \<open>Built-in dict and str.casefold\<close>

text \<open>
  A \<open>dict\<close> keeps its entries in insertion order; assigning to a key that is present
  replaces the value in place, assigning to a new key appends an entry.
\<close>

primrec dict_setitem :: "('k \<times> 'v) list \<Rightarrow> 'k \<Rightarrow> 'v \<Rightarrow> ('k \<times> 'v) list" where
  "dict_setitem [] k v = [(k, v)]"
| "dict_setitem (p # ps) k v = (if fst p = k then (k, v) # ps else p # dict_setitem ps k v)"

definition dict_getitem :: "(string \<times> 'v) list \<Rightarrow> string \<Rightarrow> exc + 'v" where
  "dict_getitem d k = (case map_of d k of None \<Rightarrow> Inl (Exception ''KeyError'' k) | Some v \<Rightarrow> Inr v)"

definition dict_contains :: "('k \<times> 'v) list \<Rightarrow> 'k \<Rightarrow> bool" where
  "dict_contains d k = (k \<in> set (map fst d))"

text \<open>
  \<open>dict.get(key, dflt)\<close>: the result is a stored value or the default (\<open>dflt\<close>); \<open>None\<close> is
  Python's \<open>None\<close>.
\<close>

definition dict_get :: "('k \<times> 'v) list \<Rightarrow> 'k \<Rightarrow> 'v option \<Rightarrow> 'v option" where
  "dict_get d k dflt = (case map_of d k of None \<Rightarrow> dflt | Some v \<Rightarrow> Some v)"

definition dict_values :: "('k \<times> 'v) list \<Rightarrow> 'v list" where
  "dict_values d = map snd d"

text \<open>
  \<open>str.casefold\<close> belongs to the runtime, so the operations below take it as the
  parameter \<open>cf\<close>. On ASCII strings it lowers the letters \<open>A\<close> to \<open>Z\<close>, which is
  \<open>ascii_casefold\<close>, the instance the concrete evaluations use.
\<close>

definition fold_char :: "char \<Rightarrow> char" where
  "fold_char c =
    (let n = (of_char c :: nat) in if 65 \<le> n \<and> n \<le> 90 then char_of (n + 32) else c)"

definition ascii_casefold :: "string \<Rightarrow> string" where
  "ascii_casefold s = map fold_char s"

section \<open>CaseInsensitiveDict (commands/core.py)\<close>

text \<open>
  The class header \<open>CaseInsensitiveDict(Dict[K, V])\<close> uses type variables \<open>K\<close> and \<open>V\<close>
  that core.py does not declare; they are taken as declared. Keys are strings (they have
  \<open>casefold\<close>), values are of any type.
\<close>

text \<open>
  A name in a function body is looked up among the local names, then the globals of the
  module, then the builtins, and \<open>NameError\<close> is raised when none binds it. core.py binds
  no global \<open>v\<close> and there is no such builtin, so the scope of value names in
  \<open>__setitem__(self, key, value)\<close> is the parameter \<open>value\<close>.
\<close>

definition load_name :: "(string \<times> 'v) list \<Rightarrow> string \<Rightarrow> exc + 'v" where
  "load_name scope n =
    (case map_of scope n of
       None \<Rightarrow> Inl (Exception ''NameError'' (''name '' @ [CHR 0x27] @ n @ [CHR 0x27] @ '' is not defined''))
     | Some x \<Rightarrow> Inr x)"

definition CaseInsensitiveDict_getitem ::
  "(string \<Rightarrow> string) \<Rightarrow> (string \<times> 'v) list \<Rightarrow> string \<Rightarrow> exc + 'v" where
  "CaseInsensitiveDict_getitem cf d key = dict_getitem d (cf key)"

text \<open>The body is \<open>super().__setitem__(key.casefold(), v)\<close>: it loads the name \<open>v\<close>.\<close>

definition CaseInsensitiveDict_setitem ::
  "(string \<Rightarrow> string) \<Rightarrow> (string \<times> 'v) list \<Rightarrow> string \<Rightarrow> 'v \<Rightarrow> exc + (string \<times> 'v) list" where
  "CaseInsensitiveDict_setitem cf d key value =
    (let k = cf key in
     case load_name [(''value'', value)] ''v'' of
       Inl e \<Rightarrow> Inl e
     | Inr x \<Rightarrow> Inr (dict_setitem d k x))"

definition CaseInsensitiveDict_contains ::
  "(string \<Rightarrow> string) \<Rightarrow> (string \<times> 'v) list \<Rightarrow> string \<Rightarrow> bool" where
  "CaseInsensitiveDict_contains cf d key = dict_contains d (cf key)"

definition CaseInsensitiveDict_get ::
  "(string \<Rightarrow> string) \<Rightarrow> (string \<times> 'v) list \<Rightarrow> string \<Rightarrow> 'v option \<Rightarrow> 'v option" where
  "CaseInsensitiveDict_get cf d key dflt = dict_get d (cf key) dflt"

section \<open>CommandSink (commands/core.py)\<close>

text \<open>
  The constructor chooses the class of \<open>mapping\<close> once: \<open>CaseInsensitiveDict\<close> when
  \<open>case_insensitive\<close> is set, the built-in \<open>dict\<close> otherwise. A method call on the
  mapping goes to the method of its class. The values are references to commands.
\<close>

datatype mapping = Dict "(string \<times> ref) list" | CaseInsensitiveDict "(string \<times> ref) list"

fun entries :: "mapping \<Rightarrow> (string \<times> ref) list" where
  "entries (Dict d) = d"
| "entries (CaseInsensitiveDict d) = d"

fun mapping_get :: "(string \<Rightarrow> string) \<Rightarrow> mapping \<Rightarrow> string \<Rightarrow> ref option \<Rightarrow> ref option" where
  "mapping_get cf (Dict d) key dflt = dict_get d key dflt"
| "mapping_get cf (CaseInsensitiveDict d) key dflt = CaseInsensitiveDict_get cf d key dflt"

fun mapping_setitem :: "(string \<Rightarrow> string) \<Rightarrow> mapping \<Rightarrow> string \<Rightarrow> ref \<Rightarrow> exc + mapping" where
  "mapping_setitem cf (Dict d) key value = Inr (Dict (dict_setitem d key value))"
| "mapping_setitem cf (CaseInsensitiveDict d) key value =
    (case CaseInsensitiveDict_setitem cf d key value of
       Inl e \<Rightarrow> Inl e
     | Inr d' \<Rightarrow> Inr (CaseInsensitiveDict d'))"

record CommandSink =
  mapping :: mapping

definition CommandSink_init :: "bool \<Rightarrow> CommandSink" where
  "CommandSink_init case_insensitive =
    \<lparr>mapping = (if case_insensitive then CaseInsensitiveDict [] else Dict [])\<rparr>"

text \<open>
  The loop of \<open>walk_commands\<close> over \<open>self.mapping.values()\<close>, with the set \<open>seen\<close>; the
  result lists what the generator yields, in order.
\<close>

fun walk :: "ref list \<Rightarrow> ref set \<Rightarrow> ref list" where
  "walk [] seen = []"
| "walk (c # cs) seen = (if c \<notin> seen then c # walk cs (insert c seen) else walk cs seen)"

definition walk_commands :: "CommandSink \<Rightarrow> ref list" where
  "walk_commands self = walk (dict_values (entries (mapping self))) {}"

definition get_command :: "(string \<Rightarrow> string) \<Rightarrow> CommandSink \<Rightarrow> string \<Rightarrow> ref option \<Rightarrow> ref option" where
  "get_command cf self n dflt = mapping_get cf (mapping self) n dflt"

definition commands :: "CommandSink \<Rightarrow> ref list" where
  "commands self = walk_commands self"

text \<open>
  Modelled from the spec: \<open>CommandSink.register\<close> is missing from core.py, which has no
  operation that adds a command to a sink. The spec: "\<open>register(command)\<close>: inserts
  \<open>command\<close> into \<open>mapping\<close> under its \<open>name\<close> and under every entry of its \<open>aliases\<close>."
  Each insertion is an item assignment on the sink's mapping, the name first, and the
  first assignment that raises ends the registration.
\<close>

fun register_keys :: "(string \<Rightarrow> string) \<Rightarrow> mapping \<Rightarrow> string list \<Rightarrow> ref \<Rightarrow> exc + mapping" where
  "register_keys cf m [] c = Inr m"
| "register_keys cf m (k # ks) c =
    (case mapping_setitem cf m k c of
       Inl e \<Rightarrow> Inl e
     | Inr m' \<Rightarrow> register_keys cf m' ks c)"

text \<open>
  Modelled from the spec: \<open>CommandSink.register(command)\<close>, missing from core.py. The keys
  are the command's \<open>name\<close> and then every entry of its \<open>aliases\<close>; the sink gets the
  new mapping when no assignment raised.
\<close>

definition register ::
  "(string \<Rightarrow> string) \<Rightarrow> 'a store \<Rightarrow> CommandSink \<Rightarrow> ref \<Rightarrow> exc + CommandSink" where
  "register cf st self c =
    (case register_keys cf (mapping self) (name (st c) # aliases (st c)) c of
       Inl e \<Rightarrow> Inl e
     | Inr m \<Rightarrow> Inr (self\<lparr>mapping := m\<rparr>))"

section \<open>Reading the log and the mapping\<close>

text \<open>
  What a call appended to the log it was given, how often an event name occurs in a
  log, and the keys of a dict in order.
\<close>

definition new_events :: "'a dispatched list \<Rightarrow> 'a dispatched list \<Rightarrow> 'a dispatched list" where
  "new_events log0 log1 = drop (length log0) log1"

definition count_event :: "string \<Rightarrow> 'a dispatched list \<Rightarrow> nat" where
  "count_event n log = length (filter (\<lambda>d. fst d = n) log)"

definition dict_keys :: "('k \<times> 'v) list \<Rightarrow> 'k list" where
  "dict_keys d = map fst d"

section \<open>Example commands\<close>

text \<open>
  Callbacks and commands for the concrete evaluations: a callback that raises
  \<open>ValueError('bad')\<close>, one that returns, an error callback that raises \<open>KeyError\<close> and
  one that returns; the command \<open>ping\<close> with the alias \<open>p\<close>, \<open>echo\<close> without aliases, and
  \<open>say\<close> whose alias list names \<open>s\<close> twice.
\<close>

definition raise_ValueError :: "int Context \<Rightarrow> int list \<Rightarrow> (string \<times> int) list \<Rightarrow> outcome" where
  "raise_ValueError ctx as kws = Raised (Exception ''ValueError'' ''bad'')"

definition return_None :: "int Context \<Rightarrow> int list \<Rightarrow> (string \<times> int) list \<Rightarrow> outcome" where
  "return_None ctx as kws = Returned"

definition raise_KeyError :: "int Context \<Rightarrow> exc \<Rightarrow> outcome" where
  "raise_KeyError ctx error = Raised (Exception ''KeyError'' ''x'')"

definition suppress :: "int Context \<Rightarrow> exc \<Rightarrow> outcome" where
  "suppress ctx error = Returned"

definition ping :: "int Command" where
  "ping = Command_init raise_ValueError ''ping'' [''p'']"

definition echo :: "int Command" where
  "echo = Command_init return_None ''echo'' []"



definition example_ctx :: "int Context" where
  "example_ctx = \<lparr>command = Some 0, args = Some [1], kwargs = Some [(''x'', 2)]\<rparr>"

section \<open>The invocation pipeline\<close>

text \<open>The \<open>try\<close> statement, branch by branch, with the log written out.\<close>

lemma invoke_try_cases:
  "invoke_try self ctx as kws log0 =
     (case callback self ctx as kws of
       Returned \<Rightarrow>
         (Inr (), log0 @ [(''command'', [PContext ctx]), (''command_success'', [PContext ctx])])
     | Raised exc \<Rightarrow>
         if isinstance_Exception exc then
           (case error_callback self of
              None \<Rightarrow>
                (Inr (), log0 @ [(''command'', [PContext ctx]),
                                 (''command_error'', [PContext ctx, PExc exc])])
            | Some handler \<Rightarrow>
                (case handler ctx exc of
                   Returned \<Rightarrow> (Inr (), log0 @ [(''command'', [PContext ctx])])
                 | Raised new_exc \<Rightarrow>
                     if isinstance_Exception new_exc
                     then (Inr (), log0 @ [(''command'', [PContext ctx]),
                                           (''command_error'', [PContext ctx, PExc new_exc])])
                     else (Inl new_exc, log0 @ [(''command'', [PContext ctx])])))
         else (Inl exc, log0 @ [(''command'', [PContext ctx])]))"
  by (simp add: invoke_try_def temporary_dispatch_def split: outcome.splits option.splits)

lemma branch_callback_returns:
  "callback self ctx as kws = Returned \<Longrightarrow>
   Command_invoke self ctx as kws log0 =
     (Inr (), log0 @ [(''command'', [PContext ctx]), (''command_success'', [PContext ctx]),
                      (''command_complete'', [PContext ctx])])"
  by (simp add: Command_invoke_def invoke_try_cases temporary_dispatch_def)

lemma branch_no_error_callback:
  "callback self ctx as kws = Raised e \<Longrightarrow> isinstance_Exception e \<Longrightarrow>
   error_callback self = None \<Longrightarrow>
   Command_invoke self ctx as kws log0 =
     (Inr (), log0 @ [(''command'', [PContext ctx]), (''command_error'', [PContext ctx, PExc e]),
                      (''command_complete'', [PContext ctx])])"
  by (simp add: Command_invoke_def invoke_try_cases temporary_dispatch_def)

lemma branch_error_callback_raises:
  "callback self ctx as kws = Raised e \<Longrightarrow> isinstance_Exception e \<Longrightarrow>
   error_callback self = Some h \<Longrightarrow> h ctx e = Raised e2 \<Longrightarrow> isinstance_Exception e2 \<Longrightarrow>
   Command_invoke self ctx as kws log0 =
     (Inr (), log0 @ [(''command'', [PContext ctx]), (''command_error'', [PContext ctx, PExc e2]),
                      (''command_complete'', [PContext ctx])])"
  by (simp add: Command_invoke_def invoke_try_cases temporary_dispatch_def)

lemma branch_error_callback_returns:
  "callback self ctx as kws = Raised e \<Longrightarrow> isinstance_Exception e \<Longrightarrow>
   error_callback self = Some h \<Longrightarrow> h ctx e = Returned \<Longrightarrow>
   Command_invoke self ctx as kws log0 =
     (Inr (), log0 @ [(''command'', [PContext ctx]), (''command_complete'', [PContext ctx])])"
  by (simp add: Command_invoke_def invoke_try_cases temporary_dispatch_def)

text \<open>
  An exception that is not an instance of \<open>Exception\<close> passes the \<open>except\<close> clause: the
  \<open>finally\<close> clause dispatches \<open>command_complete\<close> and the exception reaches the caller.
  The same holds when the error callback raises one.
\<close>

lemma branch_callback_base_only:
  "callback self ctx as kws = Raised e \<Longrightarrow> \<not> isinstance_Exception e \<Longrightarrow>
   Command_invoke self ctx as kws log0 =
     (Inl e, log0 @ [(''command'', [PContext ctx]), (''command_complete'', [PContext ctx])])"
  by (simp add: Command_invoke_def invoke_try_cases temporary_dispatch_def)

lemma branch_error_callback_base_only:
  "callback self ctx as kws = Raised e \<Longrightarrow> isinstance_Exception e \<Longrightarrow>
   error_callback self = Some h \<Longrightarrow> h ctx e = Raised e2 \<Longrightarrow> \<not> isinstance_Exception e2 \<Longrightarrow>
   Command_invoke self ctx as kws log0 =
     (Inl e2, log0 @ [(''command'', [PContext ctx]), (''command_complete'', [PContext ctx])])"
  by (simp add: Command_invoke_def invoke_try_cases temporary_dispatch_def)






text \<open>
  C3. When the callback raises an error \<open>e1\<close>: with no error callback set,
  \<open>command_error\<close> is dispatched with the payload \<open>(ctx, e1)\<close>; with an error callback
  that raises an error \<open>e2\<close>, \<open>command_error\<close> is dispatched with \<open>(ctx, e2)\<close>, and when
  \<open>e2\<close> differs from \<open>e1\<close> no dispatched payload holds \<open>e1\<close>.
\<close>

theorem invoke_error_payload:
  assumes "callback self ctx as kws = Raised e1" and "isinstance_Exception e1"
  shows "(error_callback self = None \<longrightarrow>
            Command_invoke self ctx as kws log0 =
              (Inr (), log0 @ [(''command'', [PContext ctx]),
                               (''command_error'', [PContext ctx, PExc e1]),
                               (''command_complete'', [PContext ctx])]))
       \<and> (\<forall>h e2. error_callback self = Some h \<longrightarrow> h ctx e1 = Raised e2
            \<longrightarrow> isinstance_Exception e2 \<longrightarrow>
            Command_invoke self ctx as kws log0 =
              (Inr (), log0 @ [(''command'', [PContext ctx]),
                               (''command_error'', [PContext ctx, PExc e2]),
                               (''command_complete'', [PContext ctx])])
            \<and> (e2 \<noteq> e1 \<longrightarrow>
                 (\<forall>d \<in> set (new_events log0 (snd (Command_invoke self ctx as kws log0))).
                     PExc e1 \<notin> set (snd d))))"
  using assms
  by (auto simp add: branch_no_error_callback branch_error_callback_raises new_events_def)

theorem invoke_error_payload_witness:
  "callback ping example_ctx [1] [(''x'', 2)] = Raised (Exception ''ValueError'' ''bad'')
   \<and> isinstance_Exception (Exception ''ValueError'' ''bad'')
   \<and> error_callback ping = None
   \<and> Command_invoke ping example_ctx [1] [(''x'', 2)] [] =
       (Inr (), [(''command'', [PContext example_ctx]),
                 (''command_error'', [PContext example_ctx, PExc (Exception ''ValueError'' ''bad'')]),
                 (''command_complete'', [PContext example_ctx])])
   \<and> error_callback (Command_error ping raise_KeyError) = Some raise_KeyError
   \<and> raise_KeyError example_ctx (Exception ''ValueError'' ''bad'') = Raised (Exception ''KeyError'' ''x'')
   \<and> Command_invoke (Command_error ping raise_KeyError) example_ctx [1] [(''x'', 2)] [] =
       (Inr (), [(''command'', [PContext example_ctx]),
                 (''command_error'', [PContext example_ctx, PExc (Exception ''KeyError'' ''x'')]),
                 (''command_complete'', [PContext example_ctx])])"
proof -
  let ?e1 = "Exception ''ValueError'' ''bad''"
  let ?e2 = "Exception ''KeyError'' ''x''"
  let ?ping' = "Command_error ping raise_KeyError"
  have cb: "callback ping example_ctx [1] [(''x'', 2)] = Raised ?e1"
    by (simp add: ping_def Command_init_def raise_ValueError_def)
  have cb': "callback ?ping' example_ctx [1] [(''x'', 2)] = Raised ?e1"
    by (simp add: Command_error_def ping_def Command_init_def raise_ValueError_def)
  have err: "isinstance_Exception ?e1" by simp
  have none: "error_callback ping = None" by (simp add: ping_def Command_init_def)
  have some: "error_callback ?ping' = Some raise_KeyError" by (simp add: Command_error_def)
  have h: "raise_KeyError example_ctx ?e1 = Raised ?e2" by (simp add: raise_KeyError_def)
  have err2: "isinstance_Exception ?e2" by simp
  from invoke_error_payload [OF cb err, of "[]"] none
  have first: "Command_invoke ping example_ctx [1] [(''x'', 2)] [] =
       (Inr (), [(''command'', [PContext example_ctx]),
                 (''command_error'', [PContext example_ctx, PExc ?e1]),
                 (''command_complete'', [PContext example_ctx])])"
    by simp
  from invoke_error_payload [OF cb' err, of "[]"] some h err2
  have second: "Command_invoke ?ping' example_ctx [1] [(''x'', 2)] [] =
       (Inr (), [(''command'', [PContext example_ctx]),
                 (''command_error'', [PContext example_ctx, PExc ?e2]),
                 (''command_complete'', [PContext example_ctx])])"
    by simp
  from cb err none first some h second show ?thesis by (intro conjI)
qed

text \<open>
  C4. When the callback raises and the error callback that is set returns on what was
  raised, the events appended are \<open>command\<close> and \<open>command_complete\<close>, in that order and
  nothing else: neither \<open>command_success\<close> nor \<open>command_error\<close> is dispatched, and
  \<open>command_complete\<close> is dispatched once. When what was raised is an error, \<open>invoke\<close>
  returns normally.
\<close>

theorem invoke_recovered:
  assumes "callback self ctx as kws = Raised e1"
      and "error_callback self = Some h" and "h ctx e1 = Returned"
  shows "snd (Command_invoke self ctx as kws log0) =
           log0 @ [(''command'', [PContext ctx]), (''command_complete'', [PContext ctx])]
       \<and> count_event ''command_success''
            (new_events log0 (snd (Command_invoke self ctx as kws log0))) = 0
       \<and> count_event ''command_error''
            (new_events log0 (snd (Command_invoke self ctx as kws log0))) = 0
       \<and> count_event ''command_complete''
            (new_events log0 (snd (Command_invoke self ctx as kws log0))) = 1
       \<and> (isinstance_Exception e1 \<longrightarrow> fst (Command_invoke self ctx as kws log0) = Inr ())"
proof (cases "isinstance_Exception e1")
  case True
  with assms show ?thesis
    by (simp add: branch_error_callback_returns new_events_def count_event_def)
next
  case False
  with assms show ?thesis
    by (simp add: branch_callback_base_only new_events_def count_event_def)
qed

theorem invoke_recovered_witness:
  "callback (Command_error ping suppress) example_ctx [1] [(''x'', 2)]
     = Raised (Exception ''ValueError'' ''bad'')
   \<and> error_callback (Command_error ping suppress) = Some suppress
   \<and> suppress example_ctx (Exception ''ValueError'' ''bad'') = Returned
   \<and> snd (Command_invoke (Command_error ping suppress) example_ctx [1] [(''x'', 2)] []) =
       [(''command'', [PContext example_ctx]), (''command_complete'', [PContext example_ctx])]
   \<and> fst (Command_invoke (Command_error ping suppress) example_ctx [1] [(''x'', 2)] []) = Inr ()"
proof -
  let ?e1 = "Exception ''ValueError'' ''bad''"
  let ?c = "Command_error ping suppress"
  have cb: "callback ?c example_ctx [1] [(''x'', 2)] = Raised ?e1"
    by (simp add: Command_error_def ping_def Command_init_def raise_ValueError_def)
  have some: "error_callback ?c = Some suppress" by (simp add: Command_error_def)
  have h: "suppress example_ctx ?e1 = Returned" by (simp add: suppress_def)
  from invoke_recovered [OF cb some h, of "[]"]
  have "snd (Command_invoke ?c example_ctx [1] [(''x'', 2)] []) =
       [(''command'', [PContext example_ctx]), (''command_complete'', [PContext example_ctx])]"
    and "fst (Command_invoke ?c example_ctx [1] [(''x'', 2)] []) = Inr ()"
    by simp_all
  with cb some h show ?thesis by (intro conjI)
qed

text \<open>
  C5. When the callback returns, \<open>invoke\<close> returns normally and the events appended are
  \<open>command\<close>, \<open>command_success\<close>, \<open>command_complete\<close>, in that order and nothing else;
  no \<open>command_error\<close> is dispatched.
\<close>

theorem invoke_success:
  assumes "callback self ctx as kws = Returned"
  shows "Command_invoke self ctx as kws log0 =
           (Inr (), log0 @ [(''command'', [PContext ctx]), (''command_success'', [PContext ctx]),
                            (''command_complete'', [PContext ctx])])
       \<and> count_event ''command_error''
            (new_events log0 (snd (Command_invoke self ctx as kws log0))) = 0"
  using assms by (simp add: branch_callback_returns new_events_def count_event_def)

theorem invoke_success_witness:
  "callback echo example_ctx [1] [(''x'', 2)] = Returned
   \<and> Command_invoke echo example_ctx [1] [(''x'', 2)] [] =
       (Inr (), [(''command'', [PContext example_ctx]),
                 (''command_success'', [PContext example_ctx]),
                 (''command_complete'', [PContext example_ctx])])"
proof -
  have cb: "callback echo example_ctx [1] [(''x'', 2)] = Returned"
    by (simp add: echo_def Command_init_def return_None_def)
  from invoke_success [OF cb, of "[]"] cb show ?thesis by simp
qed

section \<open>Context\<close>



text \<open>
  C10. On a context as \<open>Context.__init__\<close> leaves it, \<open>reinvoke()\<close> raises \<open>TypeError\<close>
  while the argument list is built: nothing is dispatched and the context is unchanged.
\<close>

theorem reinvoke_fresh_context:
  "Context_reinvoke st Context_init log0 =
     (Inl (Exception ''TypeError'' ''argument after * must be an iterable, not NoneType''),
      Context_init, log0)"
  by (simp add: Context_reinvoke_def Context_init_def)

section \<open>The built-in dict\<close>

lemma map_of_dict_setitem: "map_of (dict_setitem d k v) = (map_of d)(k \<mapsto> v)"
  by (induction d) auto

lemma fst_set_dict_setitem: "fst ` set (dict_setitem d k v) = insert k (fst ` set d)"
  by (induction d) auto

lemma keys_dict_setitem: "set (dict_keys (dict_setitem d k v)) = insert k (set (dict_keys d))"
  by (simp add: dict_keys_def fst_set_dict_setitem)


text \<open>Assignment keeps the keys of a dict pairwise distinct.\<close>

lemma dict_setitem_distinct:
  "distinct (dict_keys d) \<Longrightarrow> distinct (dict_keys (dict_setitem d k v))"
  by (induction d) (auto simp add: dict_keys_def fst_set_dict_setitem)


section \<open>CaseInsensitiveDict\<close>

text \<open>
  Every call of \<open>__setitem__\<close> raises \<open>NameError\<close>: the body loads \<open>v\<close>, and the
  parameter is called \<open>value\<close>.
\<close>

lemma CaseInsensitiveDict_setitem_raises:
  "CaseInsensitiveDict_setitem cf d key value
     = Inl (Exception ''NameError'' ''name 'v' is not defined'')"
  by (simp add: CaseInsensitiveDict_setitem_def load_name_def)

text \<open>
  C7. The claim: after a write under \<open>k1\<close>, a read under a key that folds to the same
  string returns the value written. In the code the write \<open>d['Ping'] = 0\<close> on an empty
  case-folding dict raises \<open>NameError\<close> and stores nothing, so the read \<open>d['ping']\<close> that
  follows raises \<open>KeyError\<close>.
\<close>

theorem setitem_raises_NameError:
  "CaseInsensitiveDict_setitem ascii_casefold [] ''Ping'' (0::nat)
     = Inl (Exception ''NameError'' ''name 'v' is not defined'')
   \<and> CaseInsensitiveDict_getitem ascii_casefold ([] :: (string \<times> nat) list) ''ping''
     = Inl (Exception ''KeyError'' ''ping'')"
  by (simp add: CaseInsensitiveDict_setitem_def load_name_def CaseInsensitiveDict_getitem_def
      dict_getitem_def ascii_casefold_def fold_char_def)

section \<open>CommandSink\<close>






text \<open>
  Registration into a sink built with \<open>case_insensitive=True\<close> ends in the first item
  assignment, with the \<open>NameError\<close> of \<open>CaseInsensitiveDict.__setitem__\<close>.
\<close>

lemma register_case_insensitive_raises:
  "register cf st (CommandSink_init True) c
     = Inl (Exception ''NameError'' ''name 'v' is not defined'')"
  by (simp add: register_def CommandSink_init_def CaseInsensitiveDict_setitem_def load_name_def)




text \<open>
  C8. On a sink whose mapping is a \<open>CaseInsensitiveDict\<close> (\<open>case_insensitive=True\<close>),
  whatever it holds, two keys that are equal after case-folding give the same result of
  \<open>get_command\<close> for the same default: the same command, or the default when the
  folded key is absent.
\<close>

theorem get_command_casefold:
  assumes "mapping self = CaseInsensitiveDict d" and "cf k1 = cf k2"
  shows "get_command cf self k1 dflt = get_command cf self k2 dflt
       \<and> (\<not> dict_contains d (cf k1) \<longrightarrow>
            get_command cf self k1 dflt = dflt \<and> get_command cf self k2 dflt = dflt)"
  using assms
  by (auto simp add: get_command_def CaseInsensitiveDict_get_def dict_get_def dict_contains_def
      dom_map_of_conv_image_fst [symmetric] domIff split: option.splits)

theorem get_command_casefold_witness:
  "mapping \<lparr>mapping = CaseInsensitiveDict [(''ping'', 0), (''p'', 0)]\<rparr>
      = CaseInsensitiveDict [(''ping'', 0), (''p'', 0)]
   \<and> ascii_casefold ''PING'' = ascii_casefold ''Ping''
   \<and> get_command ascii_casefold \<lparr>mapping = CaseInsensitiveDict [(''ping'', 0), (''p'', 0)]\<rparr>
        ''PING'' None
      = get_command ascii_casefold \<lparr>mapping = CaseInsensitiveDict [(''ping'', 0), (''p'', 0)]\<rparr>
        ''Ping'' None
   \<and> get_command ascii_casefold \<lparr>mapping = CaseInsensitiveDict [(''ping'', 0), (''p'', 0)]\<rparr>
        ''PING'' None
      = Some 0"
proof -
  let ?d = "[(''ping'', 0::nat), (''p'', 0)]"
  have h1: "mapping \<lparr>mapping = CaseInsensitiveDict ?d\<rparr> = CaseInsensitiveDict ?d" by simp
  have h2: "ascii_casefold ''PING'' = ascii_casefold ''Ping''" by code_simp
  have v: "get_command ascii_casefold \<lparr>mapping = CaseInsensitiveDict ?d\<rparr> ''PING'' None = Some 0"
    by code_simp
  from get_command_casefold [of "\<lparr>mapping = CaseInsensitiveDict ?d\<rparr>" ?d ascii_casefold
      "''PING''" "''Ping''" None, OF h1 h2]
  have "get_command ascii_casefold \<lparr>mapping = CaseInsensitiveDict ?d\<rparr> ''PING'' None
      = get_command ascii_casefold \<lparr>mapping = CaseInsensitiveDict ?d\<rparr> ''Ping'' None"
    by (rule conjunct1)
  with h1 h2 v show ?thesis by (intro conjI)
qed

end
